theory Spec2Isabelle
  imports Main
begin

section \<open>The packet tree of the asn1 package\<close>

text \<open>
  Modelled from the spec: the Packet type of the asn1 package (imported as
  \<open>asn1\<close> in modify.go and as \<open>asno\<close> in the delete file; it is another
  repository, not under src/). The spec's data model gives a Packet as
  \<open>{class, encoding, tag number, raw or composite value, ordered sequence of
  child Packets, optional human-readable description}\<close>.

  The field \<open>Data\<close> is the content buffer of a node, kept only as far as the code
  under src/ writes to it (\<open>request.Data.Write\<close> in \<open>DelRequest.encode\<close>). The
  octets that the codec itself places there (content octets of strings and
  integers, serialised children) are the codec's concern and are not stored: the
  tree determines them.
\<close>

datatype Class = ClassUniversal | ClassApplication | ClassContext | ClassPrivate

datatype Type = TypePrimitive | TypeConstructed

text \<open>
  A Go value of type \<open>interface{}\<close> handed to the packet constructors: \<open>nil\<close>, a
  string, an integer or a boolean.
\<close>

datatype val = VNil | VString string | VInteger int | VBool bool

datatype Packet = Packet
  (ClassType: Class)
  (TagType: Type)
  (Tag: nat)
  (Value: val)
  (Data: string)
  (Children: "Packet list")
  (Description: string)

text \<open>
  Modelled from the spec: the universal tag numbers that the asn1 package names
  (the numbers of ASN.1: INTEGER 2, OCTET STRING 4, ENUMERATED 10, SEQUENCE 16,
  SET 17). In Go a tag is an unsigned integer, and the tag comparisons of
  \<open>Conn.Del\<close> and \<open>Conn.Modify\<close> compare the number alone, not the class.
\<close>

definition TagInteger :: nat where "TagInteger = 2"
definition TagOctetString :: nat where "TagOctetString = 4"
definition TagEnumerated :: nat where "TagEnumerated = 10"
definition TagSequence :: nat where "TagSequence = 16"
definition TagSet :: nat where "TagSet = 17"

text \<open>
  Modelled from the spec: the application tags of the ldap package, declared
  outside src/. The spec's external interfaces give \<open>Delete=10/11
  request/response, Modify=6/7\<close>; the header comments of the two source files
  say \<open>[APPLICATION 6]\<close> and \<open>[APPLICATION 10]\<close> for the requests.
\<close>

definition ApplicationModifyRequest :: nat where "ApplicationModifyRequest = 6"
definition ApplicationModifyResponse :: nat where "ApplicationModifyResponse = 7"
definition ApplicationDelRequest :: nat where "ApplicationDelRequest = 10"
definition ApplicationDelResponse :: nat where "ApplicationDelResponse = 11"

text \<open>
  Modelled from the spec: the constructors of the asn1 package, \<open>encode(class,
  encoding, tag, value, description) -> Packet\<close> and \<open>appendChild(parent,
  child)\<close>. \<open>Encode\<close> returns a node without children and with an empty content
  buffer; \<open>NewString\<close> and \<open>NewInteger\<close> are \<open>Encode\<close> for a string and an integer
  value; \<open>AppendChild\<close> puts the child last in the parent's children. Every call
  of \<open>AppendChild\<close> under src/ passes a child that is not modified afterwards, so
  the child is copied by value here.
\<close>

definition Encode :: "Class \<Rightarrow> Type \<Rightarrow> nat \<Rightarrow> val \<Rightarrow> string \<Rightarrow> Packet" where
  "Encode c t tg v d = Packet c t tg v [] [] d"

definition NewString :: "Class \<Rightarrow> Type \<Rightarrow> nat \<Rightarrow> string \<Rightarrow> string \<Rightarrow> Packet" where
  "NewString c t tg v d = Encode c t tg (VString v) d"

definition NewInteger :: "Class \<Rightarrow> Type \<Rightarrow> nat \<Rightarrow> int \<Rightarrow> string \<Rightarrow> Packet" where
  "NewInteger c t tg v d = Encode c t tg (VInteger v) d"

definition AppendChild :: "Packet \<Rightarrow> Packet \<Rightarrow> Packet" where
  "AppendChild p child =
     Packet (ClassType p) (TagType p) (Tag p) (Value p) (Data p) (Children p @ [child]) (Description p)"

text \<open>\<open>p.Data.Write(bs)\<close>: the octets are appended to the content buffer.\<close>

definition Data_Write :: "Packet \<Rightarrow> string \<Rightarrow> Packet" where
  "Data_Write p bs =
     Packet (ClassType p) (TagType p) (Tag p) (Value p) (Data p @ bs) (Children p) (Description p)"

section \<open>Modify requests (ldap/modify.go)\<close>

text \<open>The change operation choices, lines 36-40.\<close>

definition AddAttribute :: int where "AddAttribute = 0"
definition DeleteAttribute :: int where "DeleteAttribute = 1"
definition ReplaceAttribute :: int where "ReplaceAttribute = 2"

record PartialAttribute =
  Type :: string
  Vals :: "string list"

text \<open>
  \<open>PartialAttribute.encode\<close>, lines 50-59. The \<open>range\<close> loop over \<open>p.Vals\<close> is the
  left fold that appends one octet string per value to the set.
\<close>

definition PartialAttribute_encode :: "PartialAttribute \<Rightarrow> Packet" where
  "PartialAttribute_encode p =
     (let seq = Encode ClassUniversal TypeConstructed TagSequence VNil ''PartialAttribute'';
          seq = AppendChild seq (NewString ClassUniversal TypePrimitive TagOctetString (Type p) ''Type'');
          vset = Encode ClassUniversal TypeConstructed TagSet VNil ''AttributeValue'';
          vset = foldl (\<lambda>s v. AppendChild s
                   (NewString ClassUniversal TypePrimitive TagOctetString v ''Vals'')) vset (Vals p);
          seq = AppendChild seq vset
      in seq)"

text \<open>
  \<open>ModifyRequest\<close>, lines 62-71. The type has the DN and the three attribute
  lists, and no field for controls. A nil slice and an empty slice are both the
  empty list: the code only ranges over these slices and appends to them.
\<close>

record ModifyRequest =
  DN :: string
  AddAttributes :: "PartialAttribute list"
  DeleteAttributes :: "PartialAttribute list"
  ReplaceAttributes :: "PartialAttribute list"

text \<open>The methods \<open>Add\<close>, \<open>Delete\<close> and \<open>Replace\<close>, lines 74-86.\<close>

definition ModifyRequest_Add :: "ModifyRequest \<Rightarrow> string \<Rightarrow> string list \<Rightarrow> ModifyRequest" where
  "ModifyRequest_Add m attrType attrVals =
     m\<lparr>AddAttributes := AddAttributes m @ [\<lparr>Type = attrType, Vals = attrVals\<rparr>]\<rparr>"

definition ModifyRequest_Delete :: "ModifyRequest \<Rightarrow> string \<Rightarrow> string list \<Rightarrow> ModifyRequest" where
  "ModifyRequest_Delete m attrType attrVals =
     m\<lparr>DeleteAttributes := DeleteAttributes m @ [\<lparr>Type = attrType, Vals = attrVals\<rparr>]\<rparr>"

definition ModifyRequest_Replace :: "ModifyRequest \<Rightarrow> string \<Rightarrow> string list \<Rightarrow> ModifyRequest" where
  "ModifyRequest_Replace m attrType attrVals =
     m\<lparr>ReplaceAttributes := ReplaceAttributes m @ [\<lparr>Type = attrType, Vals = attrVals\<rparr>]\<rparr>"

text \<open>
  One iteration of the three loops of \<open>ModifyRequest.encode\<close> (lines 93-96,
  99-102 and 105-108): the bodies differ in the operation constant only.
\<close>

definition appendChange :: "int \<Rightarrow> Packet \<Rightarrow> PartialAttribute \<Rightarrow> Packet" where
  "appendChange operation changes attribute =
     (let change = Encode ClassUniversal TypeConstructed TagSequence VNil ''Change'';
          change = AppendChild change
                     (NewInteger ClassUniversal TypePrimitive TagEnumerated operation ''Operation'');
          change = AppendChild change (PartialAttribute_encode attribute)
      in AppendChild changes change)"

text \<open>\<open>ModifyRequest.encode\<close>, lines 88-112.\<close>

definition ModifyRequest_encode :: "ModifyRequest \<Rightarrow> Packet" where
  "ModifyRequest_encode m =
     (let request = Encode ClassApplication TypeConstructed ApplicationModifyRequest VNil ''Modify Request'';
          request = AppendChild request
                      (NewString ClassUniversal TypePrimitive TagOctetString (ModifyRequest.DN m) ''DN'');
          changes = Encode ClassUniversal TypeConstructed TagSequence VNil ''Changes'';
          changes = foldl (appendChange AddAttribute) changes (AddAttributes m);
          changes = foldl (appendChange DeleteAttribute) changes (DeleteAttributes m);
          changes = foldl (appendChange ReplaceAttribute) changes (ReplaceAttributes m);
          request = AppendChild request changes
      in request)"

text \<open>\<open>NewModifyRequest\<close>, lines 115-121: the three lists are left nil.\<close>

definition NewModifyRequest :: "string \<Rightarrow> ModifyRequest" where
  "NewModifyRequest dn =
     \<lparr>DN = dn, AddAttributes = [], DeleteAttributes = [], ReplaceAttributes = []\<rparr>"

section \<open>Delete requests (the delete file, src/unnamed/part_000)\<close>

text \<open>
  Modelled from the spec: the Control type of the ldap package, declared outside
  src/: \<open>{object identifier, criticality flag, opaque value}\<close>.
\<close>

record Control =
  ControlType :: string
  Criticality :: bool
  ControlValue :: string

text \<open>
  \<open>DelRequest\<close>, lines 16-21. \<open>Conn.Del\<close> tests \<open>Controls != nil\<close>, so the nil
  slice (\<open>None\<close>) is kept apart from an empty slice that is not nil
  (\<open>Some []\<close>).
\<close>

record DelRequest =
  DN :: string
  Controls :: "Control list option"

text \<open>\<open>DelRequest.encode\<close>, lines 23-27.\<close>

definition DelRequest_encode :: "DelRequest \<Rightarrow> Packet" where
  "DelRequest_encode d =
     (let request = Encode ClassApplication TypePrimitive ApplicationDelRequest
                      (VString (DelRequest.DN d)) ''Del Request'';
          request = Data_Write request (DelRequest.DN d)
      in request)"

text \<open>\<open>NewDelRequest\<close>, lines 30-36.\<close>

definition NewDelRequest :: "string \<Rightarrow> Control list option \<Rightarrow> DelRequest" where
  "NewDelRequest dn controls = \<lparr>DN = dn, Controls = controls\<rparr>"

section \<open>The connection as the two operations see it\<close>

text \<open>
  Modelled from the spec: the error values of the ldap package (\<open>NewError\<close> and
  the \<open>Error\<close> type are declared outside src/). \<open>NewError code (errors.New
  text)\<close> is the spec's \<open>ResultError{code, diagnostic}\<close>; with the code
  \<open>ErrorNetwork\<close> it is the spec's NetworkError. \<open>OtherError\<close> stands for an
  error value of any other Go type, which the absent parts may return.
\<close>

datatype error = NewError (ResultCode: nat) (Err: string) | OtherError string

text \<open>
  Modelled from the spec: \<open>PacketResponse\<close> and its method \<open>ReadPacket\<close> are
  declared outside src/. A delivered response is given by what \<open>ReadPacket\<close>
  returns for it: \<open>Inl err\<close> when the returned error is not nil (a frame that
  could not be decoded), \<open>Inr packet\<close> otherwise.
\<close>

datatype PacketResponse = PacketResponse (ReadPacket: "error + Packet")

text \<open>
  What the receive \<open><-msgCtx.responses\<close> does: it yields a delivered response,
  or it reports that the channel was closed (\<open>ok\<close> is false), or it blocks for
  ever because nothing is delivered and the channel stays open.
\<close>

datatype recv = Delivered PacketResponse | ChannelClosed | NeverDelivered

text \<open>
  Modelled from the spec: the MessageContext, \<open>{id, response slot}\<close>, declared
  outside src/. The slot is given by the outcome of the one receive that an
  operation makes on it.
\<close>

record messageContext =
  id' :: int
  responses :: recv

text \<open>
  Modelled from the spec: the parts of the connection that \<open>Conn.Del\<close> and
  \<open>Conn.Modify\<close> use and that are declared outside src/: the debug flag, the
  message ID that \<open>l.nextMessageID()\<close> returns to this call, and
  \<open>l.sendMessage\<close>, which registers the envelope and writes it, and returns the
  message context or an error. The field \<open>nextMessageID\<close> is the value returned
  only; the call itself is a call on the connection, and an operation records
  it as the event \<open>NextMessageID\<close> below.
\<close>

record Conn =
  Debug :: bool
  nextMessageID :: int
  sendMessage :: "Packet \<Rightarrow> error + messageContext"

text \<open>
  Modelled from the spec: the package-level parts of the ldap package that the
  two operations call and that are declared outside src/, taken as parameters:
  the result code \<open>ErrorNetwork\<close>, \<open>encodeControls\<close>, \<open>addLDAPDescriptions\<close> (it
  receives the packet by pointer, so it returns the packet as it leaves it, or an
  error) and \<open>getLDAPResultCode\<close>, the spec's Result Decoder, which returns the
  result code and the diagnostic text.
\<close>

record ldap =
  ErrorNetwork :: nat
  encodeControls :: "Control list \<Rightarrow> Packet"
  addLDAPDescriptions :: "Packet \<Rightarrow> error + Packet"
  getLDAPResultCode :: "Packet \<Rightarrow> nat \<times> string"

text \<open>
  The calls an operation makes on the connection and on the log, in the order
  it makes them. \<open>NextMessageID\<close> is the call \<open>l.nextMessageID()\<close> and
  carries the message ID it returned. \<open>Debug_Printf\<close> carries the format and the
  message ID, \<open>Log_Printf\<close> the format and the tag it prints.
\<close>

datatype event =
    NextMessageID int
  | Debug_PrintPacket Packet
  | Debug_Printf string int
  | PrintPacket Packet
  | SendMessage Packet
  | FinishMessage messageContext
  | Log_Printf string nat

text \<open>
  How a call ends: it returns an error or nil, it panics (the runtime fault of
  an index out of range), or it never returns.
\<close>

datatype outcome = Returned "error option" | Panic | Blocked

text \<open>
  Modelled from the spec: the debug hook (\<open>l.Debug.Printf\<close>,
  \<open>l.Debug.PrintPacket\<close>), declared outside src/: it prints when the flag is set
  and is a no-op by default.
\<close>

definition dbg :: "Conn \<Rightarrow> event \<Rightarrow> event list" where
  "dbg l e = (if Debug l then [e] else [])"

text \<open>The events \<open>t\<close> happened, then the rest of the call ran.\<close>

definition after :: "event list \<Rightarrow> outcome \<times> event list \<Rightarrow> outcome \<times> event list" where
  "after t r = (fst r, t @ snd r)"

text \<open>
  Go's \<open>defer\<close>: the deferred call runs when the function returns and when it
  panics; a function that never returns never runs it.
\<close>

definition deferred :: "event \<Rightarrow> outcome \<times> event list \<Rightarrow> outcome \<times> event list" where
  "deferred e r = (fst r, if fst r = Blocked then snd r else snd r @ [e])"

text \<open>
  The response check, lines 66-83 of \<open>Conn.Del\<close> and lines 148-165 of
  \<open>Conn.Modify\<close>: the two texts are the same except for the expected response
  tag. \<open>packet.Children[1]\<close> is read without a test of the length; Go panics
  when the slice has fewer than two elements.
\<close>

definition checkResponse :: "ldap \<Rightarrow> Conn \<Rightarrow> nat \<Rightarrow> messageContext \<Rightarrow> Packet \<Rightarrow> outcome \<times> event list" where
  "checkResponse pkg l expected msgCtx packet =
     (case (if Debug l then addLDAPDescriptions pkg packet else Inr packet) of
        Inl err \<Rightarrow> (Returned (Some err), [])
      | Inr packet \<Rightarrow>
          after (dbg l (PrintPacket packet))
            (if length (Children packet) < 2 then (Panic, [])
             else if Tag (Children packet ! 1) = expected then
               (case getLDAPResultCode pkg packet of
                  (resultCode, resultDescription) \<Rightarrow>
                    if resultCode \<noteq> 0
                    then (Returned (Some (NewError resultCode resultDescription)), [])
                    else (Returned None, dbg l (Debug_Printf ''%d: returning'' (id' msgCtx))))
             else (Returned None,
                   [Log_Printf ''Unexpected Response: %d'' (Tag (Children packet ! 1))]
                   @ dbg l (Debug_Printf ''%d: returning'' (id' msgCtx)))))"

text \<open>
  Waiting for the response, lines 55-64 of \<open>Conn.Del\<close> and lines 137-146 of
  \<open>Conn.Modify\<close>, followed by the response check.
\<close>

definition awaitResponse :: "ldap \<Rightarrow> Conn \<Rightarrow> nat \<Rightarrow> messageContext \<Rightarrow> outcome \<times> event list" where
  "awaitResponse pkg l expected msgCtx =
     after (dbg l (Debug_Printf ''%d: waiting for response'' (id' msgCtx)))
       (case responses msgCtx of
          NeverDelivered \<Rightarrow> (Blocked, [])
        | ChannelClosed \<Rightarrow>
            (Returned (Some (NewError (ErrorNetwork pkg) ''ldap: response channel closed'')), [])
        | Delivered packetResponse \<Rightarrow>
            after (dbg l (Debug_Printf ''%d: got response %p'' (id' msgCtx)))
              (case ReadPacket packetResponse of
                 Inl err \<Rightarrow> (Returned (Some err), [])
               | Inr packet \<Rightarrow> checkResponse pkg l expected msgCtx packet))"

text \<open>
  Sending, lines 47-53 of \<open>Conn.Del\<close> and lines 129-135 of \<open>Conn.Modify\<close>: when
  \<open>sendMessage\<close> fails the error is returned; otherwise \<open>finishMessage\<close> is
  deferred and the operation waits for the response.
\<close>

definition sendAndAwait :: "ldap \<Rightarrow> Conn \<Rightarrow> nat \<Rightarrow> Packet \<Rightarrow> outcome \<times> event list" where
  "sendAndAwait pkg l expected packet =
     after (dbg l (Debug_PrintPacket packet) @ [SendMessage packet])
       (case sendMessage l packet of
          Inl err \<Rightarrow> (Returned (Some err), [])
        | Inr msgCtx \<Rightarrow> deferred (FinishMessage msgCtx) (awaitResponse pkg l expected msgCtx))"

text \<open>
  The envelope of \<open>Conn.Del\<close>, lines 40-45. The message ID in it is the one
  that the call \<open>l.nextMessageID()\<close> of line 41 returned.
\<close>

definition Del_packet :: "ldap \<Rightarrow> Conn \<Rightarrow> DelRequest \<Rightarrow> Packet" where
  "Del_packet pkg l delRequest =
     (let packet = Encode ClassUniversal TypeConstructed TagSequence VNil ''LDAP Request'';
          packet = AppendChild packet
                     (NewInteger ClassUniversal TypePrimitive TagInteger (nextMessageID l) ''MessageID'');
          packet = AppendChild packet (DelRequest_encode delRequest);
          packet = (case Controls delRequest of
                      None \<Rightarrow> packet
                    | Some controls \<Rightarrow> AppendChild packet (encodeControls pkg controls))
      in packet)"

text \<open>
  \<open>Conn.Del\<close>, lines 39-84: the outcome of the call and the events it made.
  The first event is the call \<open>l.nextMessageID()\<close> of line 41, made while the
  envelope is built.
\<close>

definition Del :: "ldap \<Rightarrow> Conn \<Rightarrow> DelRequest \<Rightarrow> outcome \<times> event list" where
  "Del pkg l delRequest =
     after [NextMessageID (nextMessageID l)]
       (sendAndAwait pkg l ApplicationDelResponse (Del_packet pkg l delRequest))"

text \<open>
  The envelope of \<open>Conn.Modify\<close>, lines 125-127. The message ID in it is the
  one that the call \<open>l.nextMessageID()\<close> of line 126 returned.
\<close>

definition Modify_packet :: "Conn \<Rightarrow> ModifyRequest \<Rightarrow> Packet" where
  "Modify_packet l modifyRequest =
     (let packet = Encode ClassUniversal TypeConstructed TagSequence VNil ''LDAP Request'';
          packet = AppendChild packet
                     (NewInteger ClassUniversal TypePrimitive TagInteger (nextMessageID l) ''MessageID'');
          packet = AppendChild packet (ModifyRequest_encode modifyRequest)
      in packet)"

text \<open>
  \<open>Conn.Modify\<close>, lines 124-166. The first event is the call
  \<open>l.nextMessageID()\<close> of line 126.
\<close>

definition Modify :: "ldap \<Rightarrow> Conn \<Rightarrow> ModifyRequest \<Rightarrow> outcome \<times> event list" where
  "Modify pkg l modifyRequest =
     after [NextMessageID (nextMessageID l)]
       (sendAndAwait pkg l ApplicationModifyResponse (Modify_packet l modifyRequest))"

section \<open>A stub peer for concrete runs\<close>

text \<open>
  Modelled from the spec: stand-ins for the parts declared outside src/, to run
  the two operations on the spec's concrete scenarios (a stub transport that
  replies with a given result code and diagnostic text). The theorems below hold
  for every value of these parts; the stubs serve the concrete runs only.

  \<open>stub_getLDAPResultCode\<close> is the spec's Result Decoder: the result code is the
  first grandchild (an integer) and the diagnostic message the third, after the
  matched DN; a packet without that structure gives a generic failure.
  \<open>stub_encodeControls\<close> is the spec's \<open>[0]\<close> tagged SEQUENCE of
  \<open>{controlType, criticality, controlValue}\<close>.
\<close>

definition stub_getLDAPResultCode :: "Packet \<Rightarrow> nat \<times> string" where
  "stub_getLDAPResultCode packet =
     (case Children packet of
        _ # response # _ \<Rightarrow>
          (case Children response of
             code # _ # diagnostic # _ \<Rightarrow>
               (case (Value code, Value diagnostic) of
                  (VInteger n, VString s) \<Rightarrow> (nat n, s)
                | _ \<Rightarrow> (200, ''Invalid packet format''))
           | _ \<Rightarrow> (200, ''Invalid packet format''))
      | _ \<Rightarrow> (200, ''Invalid packet format''))"

definition stub_encodeControls :: "Control list \<Rightarrow> Packet" where
  "stub_encodeControls controls =
     Packet ClassContext TypeConstructed 0 VNil []
       (map (\<lambda>c. Packet ClassUniversal TypeConstructed TagSequence VNil []
                    [Packet ClassUniversal TypePrimitive TagOctetString (VString (ControlType c)) [] [] ''Control Type'',
                     Packet ClassUniversal TypePrimitive 1 (VBool (Criticality c)) [] [] ''Criticality'',
                     Packet ClassUniversal TypePrimitive TagOctetString (VString (ControlValue c)) [] [] ''Control Value'']
                    ''Control'') controls)
       ''Controls''"

definition stub_ldap :: ldap where
  "stub_ldap = \<lparr>ErrorNetwork = 200, encodeControls = stub_encodeControls,
                 addLDAPDescriptions = Inr, getLDAPResultCode = stub_getLDAPResultCode\<rparr>"

text \<open>
  A connection whose \<open>sendMessage\<close> succeeds with message context 1, and whose
  response slot behaves as given.
\<close>

definition stub_msgCtx :: "recv \<Rightarrow> messageContext" where
  "stub_msgCtx r = \<lparr>id' = 1, responses = r\<rparr>"

definition stub_Conn :: "bool \<Rightarrow> recv \<Rightarrow> Conn" where
  "stub_Conn debug r = \<lparr>Debug = debug, nextMessageID = 1, sendMessage = (\<lambda>packet. Inr (stub_msgCtx r))\<rparr>"

text \<open>
  The stub's reply: the envelope \<open>SEQUENCE{messageID, [APPLICATION tag]
  {resultCode, matchedDN, diagnosticMessage}}\<close> as decoded, and its delivery
  on the response slot.
\<close>

definition stub_response :: "nat \<Rightarrow> int \<Rightarrow> string \<Rightarrow> Packet" where
  "stub_response tag code diagnostic =
     Packet ClassUniversal TypeConstructed TagSequence VNil []
       [Packet ClassUniversal TypePrimitive TagInteger (VInteger 1) [] [] [],
        Packet ClassApplication TypeConstructed tag VNil []
          [Packet ClassUniversal TypePrimitive TagEnumerated (VInteger code) [] [] [],
           Packet ClassUniversal TypePrimitive TagOctetString (VString []) [] [] [],
           Packet ClassUniversal TypePrimitive TagOctetString (VString diagnostic) [] [] []]
          []]
       []"

definition stub_reply :: "Packet \<Rightarrow> recv" where
  "stub_reply packet = Delivered (PacketResponse (Inr packet))"

text \<open>
  The change node that one iteration of the loops of \<open>ModifyRequest.encode\<close>
  appends: the spec's pair \<open>{operation enumerated, PartialAttribute}\<close>.
\<close>

definition changePacket :: "int \<Rightarrow> PartialAttribute \<Rightarrow> Packet" where
  "changePacket operation attribute =
     Packet ClassUniversal TypeConstructed TagSequence VNil []
       [Packet ClassUniversal TypePrimitive TagEnumerated (VInteger operation) [] [] ''Operation'',
        PartialAttribute_encode attribute]
       ''Change''"

section \<open>Auxiliary facts\<close>

lemma AppendChild_sel [simp]:
  "ClassType (AppendChild p c) = ClassType p"
  "TagType (AppendChild p c) = TagType p"
  "Tag (AppendChild p c) = Tag p"
  "Value (AppendChild p c) = Value p"
  "Data (AppendChild p c) = Data p"
  "Children (AppendChild p c) = Children p @ [c]"
  "Description (AppendChild p c) = Description p"
  by (simp_all add: AppendChild_def)

lemma foldl_AppendChild:
  "foldl (\<lambda>s v. AppendChild s (f v)) s xs =
     Packet (ClassType s) (TagType s) (Tag s) (Value s) (Data s) (Children s @ map f xs) (Description s)"
  by (induction xs arbitrary: s) simp_all

lemma appendChange_eq:
  "appendChange operation = (\<lambda>changes a. AppendChild changes (changePacket operation a))"
  by (intro ext) (simp add: appendChange_def changePacket_def Encode_def NewInteger_def AppendChild_def)

lemma foldl_appendChange:
  "foldl (appendChange operation) s xs =
     Packet (ClassType s) (TagType s) (Tag s) (Value s) (Data s)
       (Children s @ map (changePacket operation) xs) (Description s)"
  unfolding appendChange_eq by (rule foldl_AppendChild)

lemma PartialAttribute_encode_eq:
  "PartialAttribute_encode p =
     Packet ClassUniversal TypeConstructed TagSequence VNil []
       [Packet ClassUniversal TypePrimitive TagOctetString (VString (Type p)) [] [] ''Type'',
        Packet ClassUniversal TypeConstructed TagSet VNil []
          (map (\<lambda>v. Packet ClassUniversal TypePrimitive TagOctetString (VString v) [] [] ''Vals'') (Vals p))
          ''AttributeValue'']
       ''PartialAttribute''"
  unfolding PartialAttribute_encode_def foldl_AppendChild
  by (simp add: Encode_def NewString_def AppendChild_def)

lemma ModifyRequest_encode_eq:
  "ModifyRequest_encode m =
     Packet ClassApplication TypeConstructed ApplicationModifyRequest VNil []
       [Packet ClassUniversal TypePrimitive TagOctetString (VString (ModifyRequest.DN m)) [] [] ''DN'',
        Packet ClassUniversal TypeConstructed TagSequence VNil []
          (map (changePacket AddAttribute) (AddAttributes m)
           @ map (changePacket DeleteAttribute) (DeleteAttributes m)
           @ map (changePacket ReplaceAttribute) (ReplaceAttributes m))
          ''Changes'']
       ''Modify Request''"
  unfolding ModifyRequest_encode_def foldl_appendChange
  by (simp add: Encode_def NewString_def AppendChild_def)

lemma DelRequest_encode_eq:
  "DelRequest_encode d =
     Packet ClassApplication TypePrimitive ApplicationDelRequest (VString (DelRequest.DN d))
       (DelRequest.DN d) [] ''Del Request''"
  by (simp add: DelRequest_encode_def Encode_def Data_Write_def)

lemma Del_packet_eq:
  "Del_packet pkg l d =
     Packet ClassUniversal TypeConstructed TagSequence VNil []
       ([Packet ClassUniversal TypePrimitive TagInteger (VInteger (nextMessageID l)) [] [] ''MessageID'',
         DelRequest_encode d]
        @ (case Controls d of None \<Rightarrow> [] | Some controls \<Rightarrow> [encodeControls pkg controls]))
       ''LDAP Request''"
  by (simp add: Del_packet_def Encode_def NewInteger_def AppendChild_def split: option.split)

lemma Modify_packet_eq:
  "Modify_packet l m =
     Packet ClassUniversal TypeConstructed TagSequence VNil []
       [Packet ClassUniversal TypePrimitive TagInteger (VInteger (nextMessageID l)) [] [] ''MessageID'',
        ModifyRequest_encode m]
       ''LDAP Request''"
  by (simp add: Modify_packet_def Encode_def NewInteger_def AppendChild_def)

lemma after_simps [simp]:
  "fst (after t r) = fst r" "snd (after t r) = t @ snd r"
  by (simp_all add: after_def)

lemma deferred_simps [simp]:
  "fst (deferred e r) = fst r"
  "snd (deferred e r) = (if fst r = Blocked then snd r else snd r @ [e])"
  by (simp_all add: deferred_def)

text \<open>The outcome of the response check, by cases.\<close>

lemma checkResponse_outcome:
  assumes "(if Debug l then addLDAPDescriptions pkg packet else Inr packet) = Inr packet'"
  shows "fst (checkResponse pkg l expected msgCtx packet) =
           (if length (Children packet') < 2 then Panic
            else if Tag (Children packet' ! 1) = expected
            then (if fst (getLDAPResultCode pkg packet') \<noteq> 0
                  then Returned (Some (NewError (fst (getLDAPResultCode pkg packet'))
                                                (snd (getLDAPResultCode pkg packet'))))
                  else Returned None)
            else Returned None)"
  using assms by (simp add: checkResponse_def split: prod.split)

lemma checkResponse_not_Blocked: "fst (checkResponse pkg l expected msgCtx packet) \<noteq> Blocked"
  by (simp add: checkResponse_def split: sum.split prod.split)

lemma awaitResponse_Delivered:
  assumes "responses msgCtx = Delivered packetResponse" "ReadPacket packetResponse = Inr packet"
  shows "fst (awaitResponse pkg l expected msgCtx) = fst (checkResponse pkg l expected msgCtx packet)"
  using assms by (simp add: awaitResponse_def)

lemma awaitResponse_Blocked:
  "(fst (awaitResponse pkg l expected msgCtx) = Blocked) = (responses msgCtx = NeverDelivered)"
  by (simp add: awaitResponse_def checkResponse_not_Blocked split: recv.split sum.split)

lemma sendAndAwait_outcome:
  assumes "sendMessage l packet = Inr msgCtx"
  shows "fst (sendAndAwait pkg l expected packet) = fst (awaitResponse pkg l expected msgCtx)"
  using assms by (simp add: sendAndAwait_def)

lemma sendAndAwait_events:
  "snd (sendAndAwait pkg l expected packet) =
     dbg l (Debug_PrintPacket packet) @ SendMessage packet #
       (case sendMessage l packet of
          Inl err \<Rightarrow> []
        | Inr msgCtx \<Rightarrow> snd (deferred (FinishMessage msgCtx) (awaitResponse pkg l expected msgCtx)))"
  by (simp add: sendAndAwait_def split: sum.split)

text \<open>Nothing before the deferred call is a call of \<open>finishMessage\<close>.\<close>

lemma dbg_no_Finish:
  "e \<noteq> FinishMessage c \<Longrightarrow> count_list (dbg l e) (FinishMessage c) = 0"
  by (simp add: dbg_def)

lemma checkResponse_no_Finish:
  "count_list (snd (checkResponse pkg l expected msgCtx packet)) (FinishMessage c) = 0"
  by (simp add: checkResponse_def dbg_def split: sum.split prod.split)

lemma awaitResponse_no_Finish:
  "count_list (snd (awaitResponse pkg l expected msgCtx)) (FinishMessage c) = 0"
  by (simp add: awaitResponse_def dbg_def checkResponse_no_Finish split: recv.split sum.split)

lemma sendAndAwait_Finish:
  assumes "sendMessage l packet = Inr msgCtx" "fst (sendAndAwait pkg l expected packet) \<noteq> Blocked"
  shows "count_list (snd (sendAndAwait pkg l expected packet)) (FinishMessage c) = (if c = msgCtx then 1 else 0)"
    and "last (snd (sendAndAwait pkg l expected packet)) = FinishMessage msgCtx"
  using assms
  by (simp_all add: sendAndAwait_def dbg_def awaitResponse_no_Finish)

lemma checkResponse_Log:
  assumes "(if Debug l then addLDAPDescriptions pkg packet else Inr packet) = Inr packet'"
    "2 \<le> length (Children packet')" "Tag (Children packet' ! 1) \<noteq> expected"
  shows "Log_Printf ''Unexpected Response: %d'' (Tag (Children packet' ! 1))
           \<in> set (snd (checkResponse pkg l expected msgCtx packet))"
  using assms by (simp add: checkResponse_def)

lemma sendAndAwait_Log:
  assumes "sendMessage l envelope = Inr msgCtx"
    "responses msgCtx = Delivered packetResponse" "ReadPacket packetResponse = Inr packet"
    "e \<in> set (snd (checkResponse pkg l expected msgCtx packet))"
  shows "e \<in> set (snd (sendAndAwait pkg l expected envelope))"
  using assms by (simp add: sendAndAwait_def awaitResponse_def)

text \<open>The envelope is handed to \<open>sendMessage\<close> once, and nothing else is.\<close>

lemma checkResponse_no_Send:
  "count_list (snd (checkResponse pkg l expected msgCtx packet)) (SendMessage p) = 0"
  by (simp add: checkResponse_def dbg_def split: sum.split prod.split)

lemma awaitResponse_no_Send:
  "count_list (snd (awaitResponse pkg l expected msgCtx)) (SendMessage p) = 0"
  by (simp add: awaitResponse_def dbg_def checkResponse_no_Send split: recv.split sum.split)

lemma sendAndAwait_Send:
  "count_list (snd (sendAndAwait pkg l expected packet)) (SendMessage p) = (if p = packet then 1 else 0)"
  by (simp add: sendAndAwait_def dbg_def awaitResponse_no_Send split: sum.split)

text \<open>
  The two operations: the call \<open>l.nextMessageID()\<close>, then the send and the
  wait.
\<close>

lemma Del_outcome:
  "fst (Del pkg l delRequest) =
     fst (sendAndAwait pkg l ApplicationDelResponse (Del_packet pkg l delRequest))"
  by (simp add: Del_def)

lemma Del_events:
  "snd (Del pkg l delRequest) =
     NextMessageID (nextMessageID l) #
       snd (sendAndAwait pkg l ApplicationDelResponse (Del_packet pkg l delRequest))"
  by (simp add: Del_def)

lemma Modify_outcome:
  "fst (Modify pkg l modifyRequest) =
     fst (sendAndAwait pkg l ApplicationModifyResponse (Modify_packet l modifyRequest))"
  by (simp add: Modify_def)

lemma Modify_events:
  "snd (Modify pkg l modifyRequest) =
     NextMessageID (nextMessageID l) #
       snd (sendAndAwait pkg l ApplicationModifyResponse (Modify_packet l modifyRequest))"
  by (simp add: Modify_def)

lemma sendAndAwait_events_nonempty: "snd (sendAndAwait pkg l expected packet) \<noteq> []"
  by (simp add: sendAndAwait_events)

lemmas stub_defs = stub_ldap_def stub_Conn_def stub_msgCtx_def stub_reply_def stub_response_def
  stub_getLDAPResultCode_def ApplicationDelResponse_def ApplicationModifyResponse_def

section \<open>The result code decides the outcome\<close>

text \<open>
  Claim C1. Take a Delete or a Modify whose \<open>sendMessage\<close> succeeded and to
  which a response was delivered and decoded, and let \<open>packet'\<close> be the packet
  the operation examines (the decoded packet, after \<open>addLDAPDescriptions\<close> when
  the debug flag is set). If its second child carries the expected response tag
  (\<open>ApplicationDelResponse\<close> for Delete, \<open>ApplicationModifyResponse\<close> for
  Modify), then the operation returns nil when the decoded result code is 0, and
  for a nonzero code it returns the error made by \<open>NewError\<close> from that code
  and the diagnostic text that \<open>getLDAPResultCode\<close> extracted from the packet.
\<close>

theorem result_code_decides_outcome:
  assumes "responses msgCtx = Delivered packetResponse"
    and "ReadPacket packetResponse = Inr packet"
    and "(if Debug l then addLDAPDescriptions pkg packet else Inr packet) = Inr packet'"
    and "2 \<le> length (Children packet')"
    and "getLDAPResultCode pkg packet' = (resultCode, diagnostic)"
  shows "(sendMessage l (Del_packet pkg l delRequest) = Inr msgCtx \<longrightarrow>
          Tag (Children packet' ! 1) = ApplicationDelResponse \<longrightarrow>
          fst (Del pkg l delRequest) =
            Returned (if resultCode = 0 then None else Some (NewError resultCode diagnostic)))
       \<and> (sendMessage l (Modify_packet l modifyRequest) = Inr msgCtx \<longrightarrow>
          Tag (Children packet' ! 1) = ApplicationModifyResponse \<longrightarrow>
          fst (Modify pkg l modifyRequest) =
            Returned (if resultCode = 0 then None else Some (NewError resultCode diagnostic)))"
  using assms
  by (simp add: Del_def Modify_def sendAndAwait_outcome awaitResponse_Delivered
      checkResponse_outcome [where packet' = packet'])

text \<open>
  The spec's scenarios: a Delete to which the stub replies with result code 32
  and the diagnostic "no such object", and a Modify to which it replies with
  result code 0.
\<close>

theorem result_code_decides_outcome_witness:
  "fst (Del stub_ldap (stub_Conn False (stub_reply (stub_response 11 32 ''no such object'')))
          (NewDelRequest ''uid=test,dc=example,dc=com'' None))
     = Returned (Some (NewError 32 ''no such object''))
   \<and> fst (Modify stub_ldap (stub_Conn False (stub_reply (stub_response 7 0 [])))
          (NewModifyRequest ''uid=test,dc=example,dc=com''))
     = Returned None"
  using
    result_code_decides_outcome [of
      "stub_msgCtx (stub_reply (stub_response 11 32 ''no such object''))"
      "PacketResponse (Inr (stub_response 11 32 ''no such object''))"
      "stub_response 11 32 ''no such object''"
      "stub_Conn False (stub_reply (stub_response 11 32 ''no such object''))"
      stub_ldap "stub_response 11 32 ''no such object''" 32 "''no such object''"
      "NewDelRequest ''uid=test,dc=example,dc=com'' None"]
    result_code_decides_outcome [of
      "stub_msgCtx (stub_reply (stub_response 7 0 []))"
      "PacketResponse (Inr (stub_response 7 0 []))"
      "stub_response 7 0 []"
      "stub_Conn False (stub_reply (stub_response 7 0 []))"
      stub_ldap "stub_response 7 0 []" 0 "[]" _
      "NewModifyRequest ''uid=test,dc=example,dc=com''"]
  by (simp add: stub_defs)

section \<open>A response with another tag\<close>

text \<open>
  Claim C2 as the spec states it: when the tag of the delivered response is not
  the expected one, the operation still extracts a result if the packet has the
  structure for it, and otherwise reports a generic failure. The code does
  neither. A Delete receives a response with tag 7 whose result code 32 and
  diagnostic text the result decoder can extract, and returns nil, not the error
  with code 32. A Modify receives a response with tag 11 and no result
  structure below it, and returns nil, not a failure.
\<close>

theorem unexpected_response_counterexample:
  "getLDAPResultCode stub_ldap (stub_response 7 32 ''no such object'') = (32, ''no such object'')
   \<and> Tag (Children (stub_response 7 32 ''no such object'') ! 1) \<noteq> ApplicationDelResponse
   \<and> fst (Del stub_ldap (stub_Conn False (stub_reply (stub_response 7 32 ''no such object'')))
            (NewDelRequest ''uid=test,dc=example,dc=com'' None))
       = Returned None
   \<and> fst (Del stub_ldap (stub_Conn False (stub_reply (stub_response 7 32 ''no such object'')))
            (NewDelRequest ''uid=test,dc=example,dc=com'' None))
       \<noteq> Returned (Some (NewError 32 ''no such object''))
   \<and> fst (Modify stub_ldap
            (stub_Conn False (stub_reply
               (Packet ClassUniversal TypeConstructed TagSequence VNil []
                  [Packet ClassUniversal TypePrimitive TagInteger (VInteger 1) [] [] [],
                   Packet ClassApplication TypeConstructed 11 VNil [] [] []] [])))
            (NewModifyRequest ''uid=test,dc=example,dc=com''))
       = Returned None
   \<and> Children (Children
         (Packet ClassUniversal TypeConstructed TagSequence VNil []
            [Packet ClassUniversal TypePrimitive TagInteger (VInteger 1) [] [] [],
             Packet ClassApplication TypeConstructed 11 VNil [] [] []] []) ! 1) = []"
  by (simp add: stub_defs Del_def Modify_def sendAndAwait_def awaitResponse_def checkResponse_def dbg_def)

text \<open>
  Claim C2, amended. Take a Delete or a Modify whose \<open>sendMessage\<close> succeeded
  and to which a response was delivered and decoded, and let \<open>packet'\<close> be the
  packet the operation examines. If its second child does not carry the expected
  response tag, the operation logs \<open>Unexpected Response\<close> with that tag and
  returns nil. This holds for every \<open>getLDAPResultCode\<close>: the branch does not
  call it, so no result is extracted.
\<close>

theorem unexpected_response_logged_success:
  assumes "responses msgCtx = Delivered packetResponse"
    and "ReadPacket packetResponse = Inr packet"
    and "(if Debug l then addLDAPDescriptions pkg packet else Inr packet) = Inr packet'"
    and "2 \<le> length (Children packet')"
  shows "(sendMessage l (Del_packet pkg l delRequest) = Inr msgCtx \<longrightarrow>
          Tag (Children packet' ! 1) \<noteq> ApplicationDelResponse \<longrightarrow>
          fst (Del pkg l delRequest) = Returned None
          \<and> Log_Printf ''Unexpected Response: %d'' (Tag (Children packet' ! 1))
              \<in> set (snd (Del pkg l delRequest)))
       \<and> (sendMessage l (Modify_packet l modifyRequest) = Inr msgCtx \<longrightarrow>
          Tag (Children packet' ! 1) \<noteq> ApplicationModifyResponse \<longrightarrow>
          fst (Modify pkg l modifyRequest) = Returned None
          \<and> Log_Printf ''Unexpected Response: %d'' (Tag (Children packet' ! 1))
              \<in> set (snd (Modify pkg l modifyRequest)))"
proof (intro conjI impI)
  assume s: "sendMessage l (Del_packet pkg l delRequest) = Inr msgCtx"
    and t: "Tag (Children packet' ! 1) \<noteq> ApplicationDelResponse"
  from s t assms show "fst (Del pkg l delRequest) = Returned None"
    by (simp add: Del_def sendAndAwait_outcome awaitResponse_Delivered
        checkResponse_outcome [where packet' = packet'])
  from assms(3,4) t
  have "Log_Printf ''Unexpected Response: %d'' (Tag (Children packet' ! 1))
          \<in> set (snd (checkResponse pkg l ApplicationDelResponse msgCtx packet))"
    by (rule checkResponse_Log)
  with s assms(1,2)
  have "Log_Printf ''Unexpected Response: %d'' (Tag (Children packet' ! 1))
          \<in> set (snd (sendAndAwait pkg l ApplicationDelResponse (Del_packet pkg l delRequest)))"
    by (rule sendAndAwait_Log)
  then show "Log_Printf ''Unexpected Response: %d'' (Tag (Children packet' ! 1))
          \<in> set (snd (Del pkg l delRequest))"
    by (simp add: Del_events)
next
  assume s: "sendMessage l (Modify_packet l modifyRequest) = Inr msgCtx"
    and t: "Tag (Children packet' ! 1) \<noteq> ApplicationModifyResponse"
  from s t assms show "fst (Modify pkg l modifyRequest) = Returned None"
    by (simp add: Modify_def sendAndAwait_outcome awaitResponse_Delivered
        checkResponse_outcome [where packet' = packet'])
  from assms(3,4) t
  have "Log_Printf ''Unexpected Response: %d'' (Tag (Children packet' ! 1))
          \<in> set (snd (checkResponse pkg l ApplicationModifyResponse msgCtx packet))"
    by (rule checkResponse_Log)
  with s assms(1,2)
  have "Log_Printf ''Unexpected Response: %d'' (Tag (Children packet' ! 1))
          \<in> set (snd (sendAndAwait pkg l ApplicationModifyResponse (Modify_packet l modifyRequest)))"
    by (rule sendAndAwait_Log)
  then show "Log_Printf ''Unexpected Response: %d'' (Tag (Children packet' ! 1))
          \<in> set (snd (Modify pkg l modifyRequest))"
    by (simp add: Modify_events)
qed

text \<open>A Delete that receives tag 7, and a Modify that receives tag 11.\<close>

theorem unexpected_response_logged_success_witness:
  "fst (Del stub_ldap (stub_Conn False (stub_reply (stub_response 7 32 ''no such object'')))
          (NewDelRequest ''uid=test,dc=example,dc=com'' None))
     = Returned None
   \<and> Log_Printf ''Unexpected Response: %d'' 7
       \<in> set (snd (Del stub_ldap (stub_Conn False (stub_reply (stub_response 7 32 ''no such object'')))
                     (NewDelRequest ''uid=test,dc=example,dc=com'' None)))
   \<and> fst (Modify stub_ldap (stub_Conn False (stub_reply (stub_response 11 32 ''no such object'')))
          (NewModifyRequest ''uid=test,dc=example,dc=com''))
     = Returned None
   \<and> Log_Printf ''Unexpected Response: %d'' 11
       \<in> set (snd (Modify stub_ldap (stub_Conn False (stub_reply (stub_response 11 32 ''no such object'')))
                     (NewModifyRequest ''uid=test,dc=example,dc=com'')))"
  using
    unexpected_response_logged_success [of
      "stub_msgCtx (stub_reply (stub_response 7 32 ''no such object''))"
      "PacketResponse (Inr (stub_response 7 32 ''no such object''))"
      "stub_response 7 32 ''no such object''"
      "stub_Conn False (stub_reply (stub_response 7 32 ''no such object''))"
      stub_ldap "stub_response 7 32 ''no such object''"
      "NewDelRequest ''uid=test,dc=example,dc=com'' None"]
    unexpected_response_logged_success [of
      "stub_msgCtx (stub_reply (stub_response 11 32 ''no such object''))"
      "PacketResponse (Inr (stub_response 11 32 ''no such object''))"
      "stub_response 11 32 ''no such object''"
      "stub_Conn False (stub_reply (stub_response 11 32 ''no such object''))"
      stub_ldap "stub_response 11 32 ''no such object''" _
      "NewModifyRequest ''uid=test,dc=example,dc=com''"]
  by (simp add: stub_defs)

section \<open>A closed response channel\<close>

text \<open>
  Claim C4. For a Delete and for a Modify whose \<open>sendMessage\<close> succeeded: if
  the response channel of the message is closed before a response is delivered,
  the operation returns the error made by \<open>NewError\<close> from the code
  \<open>ErrorNetwork\<close> and the text \<open>ldap: response channel closed\<close> (the spec's
  message, with the package prefix that the code puts before it).
\<close>

theorem channel_closed_NetworkError:
  assumes "responses msgCtx = ChannelClosed"
  shows "(sendMessage l (Del_packet pkg l delRequest) = Inr msgCtx \<longrightarrow>
          fst (Del pkg l delRequest) =
            Returned (Some (NewError (ErrorNetwork pkg) ''ldap: response channel closed'')))
       \<and> (sendMessage l (Modify_packet l modifyRequest) = Inr msgCtx \<longrightarrow>
          fst (Modify pkg l modifyRequest) =
            Returned (Some (NewError (ErrorNetwork pkg) ''ldap: response channel closed'')))"
  using assms by (simp add: Del_def Modify_def sendAndAwait_outcome awaitResponse_def)

text \<open>The transport is closed after the request was sent.\<close>

theorem channel_closed_NetworkError_witness:
  "fst (Del stub_ldap (stub_Conn False ChannelClosed) (NewDelRequest ''uid=test,dc=example,dc=com'' None))
     = Returned (Some (NewError (ErrorNetwork stub_ldap) ''ldap: response channel closed''))
   \<and> fst (Modify stub_ldap (stub_Conn False ChannelClosed) (NewModifyRequest ''uid=test,dc=example,dc=com''))
     = Returned (Some (NewError (ErrorNetwork stub_ldap) ''ldap: response channel closed''))"
  using channel_closed_NetworkError [of "stub_msgCtx ChannelClosed" "stub_Conn False ChannelClosed"
      stub_ldap "NewDelRequest ''uid=test,dc=example,dc=com'' None"
      "NewModifyRequest ''uid=test,dc=example,dc=com''"]
  by (simp add: stub_Conn_def stub_msgCtx_def)

section \<open>Requests with an empty DN\<close>

text \<open>
  Claim C3 as the spec states it: the encoders reject a Delete and a Modify
  with an empty DN before they build the request packet. The code rejects
  neither. A Delete with the empty DN and a Modify with the empty DN are
  encoded, their envelopes are handed to \<open>sendMessage\<close>, and with a reply of
  result code 0 both operations return nil.
\<close>

theorem empty_DN_counterexample:
  "Del stub_ldap (stub_Conn False (stub_reply (stub_response 11 0 []))) (NewDelRequest [] None)
     = (Returned None,
        [NextMessageID 1,
         SendMessage
           (Packet ClassUniversal TypeConstructed 16 VNil []
              [Packet ClassUniversal TypePrimitive 2 (VInteger 1) [] [] ''MessageID'',
               Packet ClassApplication TypePrimitive 10 (VString []) [] [] ''Del Request'']
              ''LDAP Request''),
         FinishMessage (stub_msgCtx (stub_reply (stub_response 11 0 [])))])
   \<and> Modify stub_ldap (stub_Conn False (stub_reply (stub_response 7 0 []))) (NewModifyRequest [])
     = (Returned None,
        [NextMessageID 1,
         SendMessage
           (Packet ClassUniversal TypeConstructed 16 VNil []
              [Packet ClassUniversal TypePrimitive 2 (VInteger 1) [] [] ''MessageID'',
               Packet ClassApplication TypeConstructed 6 VNil []
                 [Packet ClassUniversal TypePrimitive 4 (VString []) [] [] ''DN'',
                  Packet ClassUniversal TypeConstructed 16 VNil [] [] ''Changes'']
                 ''Modify Request'']
              ''LDAP Request''),
         FinishMessage (stub_msgCtx (stub_reply (stub_response 7 0 [])))])"
  by (simp add: stub_defs Del_def Modify_def sendAndAwait_def awaitResponse_def checkResponse_def
      dbg_def after_def deferred_def Del_packet_eq Modify_packet_eq DelRequest_encode_eq
      ModifyRequest_encode_eq NewDelRequest_def NewModifyRequest_def
      TagSequence_def TagInteger_def TagOctetString_def
      ApplicationDelRequest_def ApplicationModifyRequest_def)

text \<open>
  Claim C3, amended. The encoders validate nothing and reject no request. For
  every Delete request, the empty DN included, \<open>DelRequest.encode\<close> builds the
  primitive application packet with the tag of the delete request that carries
  the DN, and \<open>Conn.Del\<close> hands the envelope that holds it to \<open>sendMessage\<close>.
  For every Modify request, the empty DN included, \<open>ModifyRequest.encode\<close>
  builds the constructed application packet with the tag of the modify request
  whose first child is the DN as an octet string, and \<open>Conn.Modify\<close> hands the
  envelope that holds it to \<open>sendMessage\<close>. A Modify with no Add, Delete or
  Replace attribute lists produces an empty changes sequence.
\<close>

theorem encoders_accept_every_DN:
  "DelRequest_encode delRequest =
     Packet ClassApplication TypePrimitive ApplicationDelRequest
       (VString (DelRequest.DN delRequest)) (DelRequest.DN delRequest) [] ''Del Request''
   \<and> SendMessage (Del_packet pkg l delRequest) \<in> set (snd (Del pkg l delRequest))
   \<and> Children (Del_packet pkg l delRequest) ! 1 = DelRequest_encode delRequest
   \<and> ClassType (ModifyRequest_encode modifyRequest) = ClassApplication
   \<and> TagType (ModifyRequest_encode modifyRequest) = TypeConstructed
   \<and> Tag (ModifyRequest_encode modifyRequest) = ApplicationModifyRequest
   \<and> Children (ModifyRequest_encode modifyRequest) ! 0 =
       Packet ClassUniversal TypePrimitive TagOctetString
         (VString (ModifyRequest.DN modifyRequest)) [] [] ''DN''
   \<and> SendMessage (Modify_packet l modifyRequest) \<in> set (snd (Modify pkg l modifyRequest))
   \<and> Children (Modify_packet l modifyRequest) ! 1 = ModifyRequest_encode modifyRequest
   \<and> Children (ModifyRequest_encode (NewModifyRequest dn)) ! 1 =
       Packet ClassUniversal TypeConstructed TagSequence VNil [] [] ''Changes''"
  by (simp add: DelRequest_encode_eq ModifyRequest_encode_eq Del_packet_eq Modify_packet_eq
      Del_def Modify_def sendAndAwait_events NewModifyRequest_def)

section \<open>The packet of a modify request\<close>

text \<open>
  Claim C5. For every ModifyRequest the encoded packet is a constructed
  application node with the tag of the modify request. Its first child is the DN
  as an octet string; its second and last child is one SEQUENCE of changes,
  which holds the changes of the Add list with operation 0, then those of the
  Delete list with operation 1, then those of the Replace list with operation 2,
  each list in the order the caller gave. A change is a SEQUENCE of the
  operation, as an enumerated, and the PartialAttribute: a SEQUENCE of the type
  as an octet string and the SET of the values as octet strings. In particular
  the request made by \<open>NewModifyRequest dn\<close> and \<open>Add "mail" ["a@x.com"]\<close> has
  a changes sequence of exactly one change, with operation 0 and the attribute
  type "mail" with one value.
\<close>

theorem ModifyRequest_encode_shape:
  "ModifyRequest_encode modifyRequest =
     Packet ClassApplication TypeConstructed ApplicationModifyRequest VNil []
       [Packet ClassUniversal TypePrimitive TagOctetString
          (VString (ModifyRequest.DN modifyRequest)) [] [] ''DN'',
        Packet ClassUniversal TypeConstructed TagSequence VNil []
          (map (changePacket 0) (AddAttributes modifyRequest)
           @ map (changePacket 1) (DeleteAttributes modifyRequest)
           @ map (changePacket 2) (ReplaceAttributes modifyRequest))
          ''Changes'']
       ''Modify Request''
   \<and> changePacket operation attribute =
       Packet ClassUniversal TypeConstructed TagSequence VNil []
         [Packet ClassUniversal TypePrimitive TagEnumerated (VInteger operation) [] [] ''Operation'',
          Packet ClassUniversal TypeConstructed TagSequence VNil []
            [Packet ClassUniversal TypePrimitive TagOctetString (VString (Type attribute)) [] [] ''Type'',
             Packet ClassUniversal TypeConstructed TagSet VNil []
               (map (\<lambda>v. Packet ClassUniversal TypePrimitive TagOctetString (VString v) [] [] ''Vals'')
                  (Vals attribute))
               ''AttributeValue'']
            ''PartialAttribute'']
         ''Change''
   \<and> Children (Children (ModifyRequest_encode
         (ModifyRequest_Add (NewModifyRequest dn) ''mail'' [''a@x.com''])) ! 1) =
       [Packet ClassUniversal TypeConstructed TagSequence VNil []
          [Packet ClassUniversal TypePrimitive TagEnumerated (VInteger 0) [] [] ''Operation'',
           Packet ClassUniversal TypeConstructed TagSequence VNil []
             [Packet ClassUniversal TypePrimitive TagOctetString (VString ''mail'') [] [] ''Type'',
              Packet ClassUniversal TypeConstructed TagSet VNil []
                [Packet ClassUniversal TypePrimitive TagOctetString (VString ''a@x.com'') [] [] ''Vals'']
                ''AttributeValue'']
             ''PartialAttribute'']
          ''Change'']"
  by (simp add: ModifyRequest_encode_eq changePacket_def PartialAttribute_encode_eq
      NewModifyRequest_def ModifyRequest_Add_def
      AddAttribute_def DeleteAttribute_def ReplaceAttribute_def)

section \<open>The envelopes\<close>

text \<open>
  Claim C7. For every Delete request the envelope that \<open>Conn.Del\<close> builds is a
  universal constructed SEQUENCE. Its first child is the message ID as an
  integer and its second child the packet of \<open>DelRequest.encode\<close>. When the
  \<open>Controls\<close> field is not nil, the packet of \<open>encodeControls\<close> follows as the
  third and last child; when it is nil the envelope has these two children only.
  This envelope, and nothing else, is handed to \<open>sendMessage\<close>, once.
\<close>

theorem Del_envelope_shape:
  "Del_packet pkg l delRequest =
     Packet ClassUniversal TypeConstructed TagSequence VNil []
       ([Packet ClassUniversal TypePrimitive TagInteger (VInteger (nextMessageID l)) [] [] ''MessageID'',
         DelRequest_encode delRequest]
        @ (case Controls delRequest of
             None \<Rightarrow> []
           | Some controls \<Rightarrow> [encodeControls pkg controls]))
       ''LDAP Request''
   \<and> count_list (snd (Del pkg l delRequest)) (SendMessage p)
       = (if p = Del_packet pkg l delRequest then 1 else 0)
   \<and> length (Children (Del_packet pkg l (NewDelRequest dn None))) = 2
   \<and> Children (Del_packet pkg l (NewDelRequest dn (Some controls))) ! 2 = encodeControls pkg controls
   \<and> length (Children (Del_packet pkg l (NewDelRequest dn (Some controls)))) = 3"
  by (simp add: Del_packet_eq Del_def sendAndAwait_Send NewDelRequest_def)

text \<open>
  Claim C10. A ModifyRequest cannot carry controls: the type has the DN and the
  three attribute lists and no other field. The envelope that \<open>Conn.Modify\<close>
  builds has exactly two children, the message ID and the packet of
  \<open>ModifyRequest.encode\<close>, whatever \<open>encodeControls\<close> is; this envelope, and
  nothing else, is handed to \<open>sendMessage\<close>, once. Delete differs: its envelope has a third
  child when the request's controls are not nil.
\<close>

theorem Modify_envelope_two_children:
  "Modify_packet l modifyRequest =
     Packet ClassUniversal TypeConstructed TagSequence VNil []
       [Packet ClassUniversal TypePrimitive TagInteger (VInteger (nextMessageID l)) [] [] ''MessageID'',
        ModifyRequest_encode modifyRequest]
       ''LDAP Request''
   \<and> length (Children (Modify_packet l modifyRequest)) = 2
   \<and> count_list (snd (Modify pkg l modifyRequest)) (SendMessage p)
       = (if p = Modify_packet l modifyRequest then 1 else 0)
   \<and> modifyRequest =
       \<lparr>ModifyRequest.DN = ModifyRequest.DN modifyRequest,
        AddAttributes = AddAttributes modifyRequest,
        DeleteAttributes = DeleteAttributes modifyRequest,
        ReplaceAttributes = ReplaceAttributes modifyRequest\<rparr>"
  by (simp add: Modify_packet_eq Modify_def sendAndAwait_Send)

section \<open>A response with fewer than two children\<close>

text \<open>
  Claim C8. \<open>Conn.Del\<close> and \<open>Conn.Modify\<close> read the second child of the
  decoded response packet without a test of the number of children. Take an
  operation whose \<open>sendMessage\<close> succeeded and to which a response was
  delivered and decoded, and let \<open>packet'\<close> be the packet the operation
  examines. The call ends in the runtime fault of an index out of range exactly
  when \<open>packet'\<close> has fewer than two children: with two or more there is no
  fault, and with fewer the fault takes the place of an error result.
\<close>

theorem missing_second_child_panics:
  assumes "responses msgCtx = Delivered packetResponse"
    and "ReadPacket packetResponse = Inr packet"
    and "(if Debug l then addLDAPDescriptions pkg packet else Inr packet) = Inr packet'"
  shows "(sendMessage l (Del_packet pkg l delRequest) = Inr msgCtx \<longrightarrow>
          (fst (Del pkg l delRequest) = Panic) = (length (Children packet') < 2))
       \<and> (sendMessage l (Modify_packet l modifyRequest) = Inr msgCtx \<longrightarrow>
          (fst (Modify pkg l modifyRequest) = Panic) = (length (Children packet') < 2))"
  using assms
  by (simp add: Del_def Modify_def sendAndAwait_outcome awaitResponse_Delivered
      checkResponse_outcome [where packet' = packet'])

text \<open>
  A Delete that receives a packet with one child, a Modify that receives a
  packet with none, and a Delete that receives a packet with two.
\<close>

theorem missing_second_child_panics_witness:
  "fst (Del stub_ldap
          (stub_Conn False (stub_reply
             (Packet ClassUniversal TypeConstructed TagSequence VNil []
                [Packet ClassUniversal TypePrimitive TagInteger (VInteger 1) [] [] []] [])))
          (NewDelRequest ''uid=test,dc=example,dc=com'' None)) = Panic
   \<and> fst (Modify stub_ldap
          (stub_Conn False (stub_reply (Packet ClassUniversal TypeConstructed TagSequence VNil [] [] [])))
          (NewModifyRequest ''uid=test,dc=example,dc=com'')) = Panic
   \<and> fst (Del stub_ldap (stub_Conn False (stub_reply (stub_response 11 0 [])))
          (NewDelRequest ''uid=test,dc=example,dc=com'' None)) \<noteq> Panic"
  using
    missing_second_child_panics [of
      "stub_msgCtx (stub_reply
         (Packet ClassUniversal TypeConstructed TagSequence VNil []
            [Packet ClassUniversal TypePrimitive TagInteger (VInteger 1) [] [] []] []))"
      "PacketResponse (Inr
         (Packet ClassUniversal TypeConstructed TagSequence VNil []
            [Packet ClassUniversal TypePrimitive TagInteger (VInteger 1) [] [] []] []))"
      "Packet ClassUniversal TypeConstructed TagSequence VNil []
         [Packet ClassUniversal TypePrimitive TagInteger (VInteger 1) [] [] []] []"
      "stub_Conn False (stub_reply
         (Packet ClassUniversal TypeConstructed TagSequence VNil []
            [Packet ClassUniversal TypePrimitive TagInteger (VInteger 1) [] [] []] []))"
      stub_ldap
      "Packet ClassUniversal TypeConstructed TagSequence VNil []
         [Packet ClassUniversal TypePrimitive TagInteger (VInteger 1) [] [] []] []"
      "NewDelRequest ''uid=test,dc=example,dc=com'' None"]
    missing_second_child_panics [of
      "stub_msgCtx (stub_reply (Packet ClassUniversal TypeConstructed TagSequence VNil [] [] []))"
      "PacketResponse (Inr (Packet ClassUniversal TypeConstructed TagSequence VNil [] [] []))"
      "Packet ClassUniversal TypeConstructed TagSequence VNil [] [] []"
      "stub_Conn False (stub_reply (Packet ClassUniversal TypeConstructed TagSequence VNil [] [] []))"
      stub_ldap
      "Packet ClassUniversal TypeConstructed TagSequence VNil [] [] []" _
      "NewModifyRequest ''uid=test,dc=example,dc=com''"]
    missing_second_child_panics [of
      "stub_msgCtx (stub_reply (stub_response 11 0 []))"
      "PacketResponse (Inr (stub_response 11 0 []))"
      "stub_response 11 0 []"
      "stub_Conn False (stub_reply (stub_response 11 0 []))"
      stub_ldap "stub_response 11 0 []"
      "NewDelRequest ''uid=test,dc=example,dc=com'' None"]
  by (simp add: stub_defs)

section \<open>The message context is released\<close>

text \<open>
  Claim C9. In \<open>Conn.Del\<close> and \<open>Conn.Modify\<close>, once \<open>sendMessage\<close> has
  succeeded with a message context, every way in which the call ends runs
  \<open>finishMessage\<close> on that context exactly once, as the last call the
  operation makes, and on no other context: the return of nil, of the error of
  the closed channel, of the error of reading the response, of the error of the
  descriptions, of the result error, and the fault of the response check. The
  hypothesis is that the receive on the response channel returns; an operation
  that waits for ever has not ended.
\<close>

theorem finishMessage_exactly_once:
  assumes "responses msgCtx \<noteq> NeverDelivered"
  shows "(sendMessage l (Del_packet pkg l delRequest) = Inr msgCtx \<longrightarrow>
          count_list (snd (Del pkg l delRequest)) (FinishMessage c) = (if c = msgCtx then 1 else 0)
          \<and> last (snd (Del pkg l delRequest)) = FinishMessage msgCtx)
       \<and> (sendMessage l (Modify_packet l modifyRequest) = Inr msgCtx \<longrightarrow>
          count_list (snd (Modify pkg l modifyRequest)) (FinishMessage c) = (if c = msgCtx then 1 else 0)
          \<and> last (snd (Modify pkg l modifyRequest)) = FinishMessage msgCtx)"
proof (intro conjI impI)
  assume s: "sendMessage l (Del_packet pkg l delRequest) = Inr msgCtx"
  with assms have b: "fst (sendAndAwait pkg l ApplicationDelResponse (Del_packet pkg l delRequest)) \<noteq> Blocked"
    by (simp add: sendAndAwait_outcome awaitResponse_Blocked)
  from s b show "count_list (snd (Del pkg l delRequest)) (FinishMessage c) = (if c = msgCtx then 1 else 0)"
    by (simp add: Del_events sendAndAwait_Finish)
  from s b show "last (snd (Del pkg l delRequest)) = FinishMessage msgCtx"
    by (simp add: Del_events sendAndAwait_events_nonempty sendAndAwait_Finish)
next
  assume s: "sendMessage l (Modify_packet l modifyRequest) = Inr msgCtx"
  with assms have b: "fst (sendAndAwait pkg l ApplicationModifyResponse (Modify_packet l modifyRequest)) \<noteq> Blocked"
    by (simp add: sendAndAwait_outcome awaitResponse_Blocked)
  from s b show "count_list (snd (Modify pkg l modifyRequest)) (FinishMessage c) = (if c = msgCtx then 1 else 0)"
    by (simp add: Modify_events sendAndAwait_Finish)
  from s b show "last (snd (Modify pkg l modifyRequest)) = FinishMessage msgCtx"
    by (simp add: Modify_events sendAndAwait_events_nonempty sendAndAwait_Finish)
qed

text \<open>
  A Delete in debug mode that ends with a result error, and a Modify whose
  response channel is closed.
\<close>

theorem finishMessage_exactly_once_witness:
  "count_list (snd (Del stub_ldap (stub_Conn True (stub_reply (stub_response 11 32 ''no such object'')))
                      (NewDelRequest ''uid=test,dc=example,dc=com'' None)))
     (FinishMessage (stub_msgCtx (stub_reply (stub_response 11 32 ''no such object'')))) = 1
   \<and> count_list (snd (Modify stub_ldap (stub_Conn False ChannelClosed)
                        (NewModifyRequest ''uid=test,dc=example,dc=com'')))
     (FinishMessage (stub_msgCtx ChannelClosed)) = 1
   \<and> last (snd (Modify stub_ldap (stub_Conn False ChannelClosed)
                  (NewModifyRequest ''uid=test,dc=example,dc=com'')))
     = FinishMessage (stub_msgCtx ChannelClosed)"
  using
    finishMessage_exactly_once [of
      "stub_msgCtx (stub_reply (stub_response 11 32 ''no such object''))"
      "stub_Conn True (stub_reply (stub_response 11 32 ''no such object''))"
      stub_ldap "NewDelRequest ''uid=test,dc=example,dc=com'' None"
      "stub_msgCtx (stub_reply (stub_response 11 32 ''no such object''))"]
    finishMessage_exactly_once [of "stub_msgCtx ChannelClosed" "stub_Conn False ChannelClosed"
      stub_ldap _ "stub_msgCtx ChannelClosed" "NewModifyRequest ''uid=test,dc=example,dc=com''"]
  by (simp add: stub_Conn_def stub_msgCtx_def stub_reply_def)

end
